theory Spec2Isabelle
  imports Main "HOL-Library.AList"
begin

section \<open>Python values used by notifier.py\<close>

text \<open>
  A Python \<open>str\<close> is a sequence of Unicode code points, so it is modelled as a list
  of naturals. \<open>S\<close> turns an ASCII literal of the source into such a list. Names that
  are only ever looked up (environment variable names, dictionary keys) stay HOL strings.
\<close>

type_synonym pystr = "nat list"

definition S :: "string \<Rightarrow> pystr" where
  "S cs = map of_char cs"

text \<open>\<open>str.isspace\<close> on one code point: the Unicode white-space set of CPython.\<close>

definition py_isspace :: "nat \<Rightarrow> bool" where
  "py_isspace c \<longleftrightarrow>
     (9 \<le> c \<and> c \<le> 13) \<or> (28 \<le> c \<and> c \<le> 32) \<or> c = 133 \<or> c = 160 \<or> c = 5760 \<or>
     (8192 \<le> c \<and> c \<le> 8202) \<or> c = 8232 \<or> c = 8233 \<or> c = 8239 \<or> c = 8287 \<or> c = 12288"

text \<open>\<open>s.strip()\<close>: leading and trailing white space removed.\<close>

definition py_strip :: "pystr \<Rightarrow> pystr" where
  "py_strip s = rev (dropWhile py_isspace (rev (dropWhile py_isspace s)))"

text \<open>\<open>sep.join(xs)\<close>.\<close>

fun py_join :: "pystr \<Rightarrow> pystr list \<Rightarrow> pystr" where
  "py_join sep [] = []"
| "py_join sep [x] = x"
| "py_join sep (x # y # ys) = x @ sep @ py_join sep (y # ys)"

text \<open>The exceptions that can leave the two functions of the script.\<close>

datatype exn =
    ValueError
  | AttributeError
  | HTTPError nat
  | RequestException

text \<open>
  \<open>int(s)\<close> for a string in base ten: optional white space around, an optional sign,
  then decimal digits that may be separated by single underscores; anything else raises
  ValueError. Only the ASCII digits are modelled. Around the number \<open>int\<close> accepts the
  ASCII blanks (9 to 13 and 32) and the non-ASCII Unicode white space.
\<close>

definition is_digit :: "nat \<Rightarrow> bool" where
  "is_digit c \<longleftrightarrow> 48 \<le> c \<and> c \<le> 57"

definition int_isspace :: "nat \<Rightarrow> bool" where
  "int_isspace c \<longleftrightarrow> (9 \<le> c \<and> c \<le> 13) \<or> c = 32 \<or> (127 \<le> c \<and> py_isspace c)"

fun int_digits :: "nat \<Rightarrow> pystr \<Rightarrow> nat option" where
  "int_digits acc [] = Some acc"
| "int_digits acc (c # cs) =
     (if c = 95 then (case cs of [] \<Rightarrow> None
                      | d # _ \<Rightarrow> if is_digit d then int_digits acc cs else None)
      else if is_digit c then int_digits (acc * 10 + (c - 48)) cs
      else None)"

definition py_int :: "pystr \<Rightarrow> exn + int" where
  "py_int s =
     (let t = rev (dropWhile int_isspace (rev (dropWhile int_isspace s)));
          neg = (case t of c # _ \<Rightarrow> c = 45 | [] \<Rightarrow> False);
          ds = (case t of c # r \<Rightarrow> if c = 45 \<or> c = 43 then r else t | [] \<Rightarrow> t)
      in case ds of
           [] \<Rightarrow> Inl ValueError
         | d # _ \<Rightarrow>
             if is_digit d
             then (case int_digits 0 ds of
                     None \<Rightarrow> Inl ValueError
                   | Some n \<Rightarrow> Inr (if neg then - int n else int n))
             else Inl ValueError)"

text \<open>The values stored in the request dictionary (\<open>Dict[str, Any]\<close>).\<close>

datatype pyval = PStr pystr | PInt int

text \<open>
  A Python dict keeps insertion order and assignment to a present key replaces its value
  in place: an association list with \<open>AList.update\<close>.
\<close>

type_synonym pydict = "(string \<times> pyval) list"

definition keys :: "pydict \<Rightarrow> string set" where
  "keys d = fst ` set d"

section \<open>The world outside the process\<close>

text \<open>
  Everything the script touches is explicit. The process environment, the answer of
  \<open>feedparser.parse\<close> for a URL and the answer of the notification service to a
  request are inputs of one run; the file system and the sequence of observable actions
  are the state that a run changes.
\<close>

text \<open>
  A feed entry is a \<open>FeedParserDict\<close>: reading an attribute that the feed did not
  supply raises AttributeError, so each attribute is optional.
\<close>

record entry =
  yt_videoid :: "pystr option"
  title :: "pystr option"
  link :: "pystr option"

text \<open>The parse result; \<open>entries = None\<close> stands for an object without that attribute.\<close>

record feed =
  entries :: "entry list option"

text \<open>
  What \<open>requests.post\<close> meets: a response with a status code, or no response at all
  (time-out, connection failure), in which case \<open>requests\<close> raises.
\<close>

datatype http_reply = Reply nat | NoReply

record outside =
  environ :: "string \<rightharpoonup> pystr"
  parse :: "pystr \<Rightarrow> feed"
  http :: "pystr \<Rightarrow> pydict \<Rightarrow> http_reply"

datatype event =
    Print pystr
  | FeedFetch pystr
  | FileRead pystr
  | FileWrite pystr pystr
  | HttpPost pystr pydict nat

text \<open>
  The file system maps a path to the text of the file there. A path that is present is a
  regular text file that can be read and rewritten; opening an absent path for reading
  raises FileNotFoundError, opening it for writing creates the file.
\<close>

record world =
  files :: "pystr \<rightharpoonup> pystr"
  trace :: "event list"

definition emit :: "event \<Rightarrow> world \<Rightarrow> world" where
  "emit e w = w\<lparr>trace := trace w @ [e]\<rparr>"

section \<open>Configuration (lines 15 to 22)\<close>

text \<open>\<open>os.environ.get(name, default)\<close>.\<close>

definition env_get :: "(string \<rightharpoonup> pystr) \<Rightarrow> string \<Rightarrow> pystr \<Rightarrow> pystr" where
  "env_get env name dflt = (case env name of None \<Rightarrow> dflt | Some v \<Rightarrow> v)"

record config =
  FEED_URL :: pystr
  LAST_SEEN_FILE :: pystr
  PUSHOVER_USER :: pystr
  PUSHOVER_TOKEN :: pystr

definition load_config :: "(string \<rightharpoonup> pystr) \<Rightarrow> config" where
  "load_config env =
     (let YOUTUBE_CHANNEL_ID = env_get env ''YOUTUBE_CHANNEL_ID'' []
      in \<lparr> FEED_URL = py_strip (env_get env ''YOUTUBE_FEED_URL''
               (if YOUTUBE_CHANNEL_ID \<noteq> []
                then S ''https://www.youtube.com/feeds/videos.xml?channel_id='' @ YOUTUBE_CHANNEL_ID
                else [])),
           LAST_SEEN_FILE = env_get env ''LAST_SEEN_FILE'' [],
           PUSHOVER_USER = env_get env ''PUSHOVER_USER'' [],
           PUSHOVER_TOKEN = env_get env ''PUSHOVER_TOKEN'' [] \<rparr>)"

section \<open>send_pushover_notification (lines 24 to 43)\<close>

text \<open>
  Lines 25 to 40 build the dictionary \<open>data\<close>; each \<open>int(...)\<close> may raise ValueError.
  The title starts with the code point U+1F4FA.
\<close>

definition notification_title :: pystr where
  "notification_title = 128250 # S '' New YouTube Video''"

definition build_data ::
  "(string \<rightharpoonup> pystr) \<Rightarrow> pystr \<Rightarrow> pystr \<Rightarrow> pystr \<Rightarrow> pystr option \<Rightarrow> exn + pydict" where
  "build_data env token to text url =
     (case py_int (env_get env ''PUSHOVER_PRIORITY'' (S ''1'')) of
        Inl e \<Rightarrow> Inl e
      | Inr priority \<Rightarrow>
          (let data = [(''token'', PStr token), (''user'', PStr to),
                       (''title'', PStr notification_title), (''message'', PStr text),
                       (''priority'', PInt priority)]
           in case (if map_of data ''priority'' = Some (PInt 2)
                    then (case py_int (env_get env ''PUSHOVER_RETRY'' (S ''60'')) of
                            Inl e \<Rightarrow> Inl e
                          | Inr retry \<Rightarrow>
                              (case py_int (env_get env ''PUSHOVER_EXPIRE'' (S ''3600'')) of
                                 Inl e \<Rightarrow> Inl e
                               | Inr expire \<Rightarrow>
                                   Inr (AList.update ''expire'' (PInt expire)
                                         (AList.update ''retry'' (PInt retry) data))))
                    else Inr data) of
                Inl e \<Rightarrow> Inl e
              | Inr data2 \<Rightarrow>
                  Inr (case url of
                         None \<Rightarrow> data2
                       | Some u \<Rightarrow> AList.update ''url_title'' (PStr (S ''Open Video''))
                                    (AList.update ''url'' (PStr u) data2))))"

definition api_url :: pystr where
  "api_url = S ''https://api.pushover.net/1/messages.json''"

text \<open>\<open>r.raise_for_status()\<close>: the client and server error classes raise HTTPError.\<close>

definition raise_for_status :: "nat \<Rightarrow> exn + unit" where
  "raise_for_status code = (if 400 \<le> code \<and> code < 600 then Inl (HTTPError code) else Inr ())"

definition send_pushover_notification ::
  "outside \<Rightarrow> config \<Rightarrow> pystr \<Rightarrow> pystr \<Rightarrow> pystr option \<Rightarrow> world \<Rightarrow> (exn + unit) \<times> world" where
  "send_pushover_notification out cfg to text url w =
     (case build_data (environ out) (PUSHOVER_TOKEN cfg) to text url of
        Inl e \<Rightarrow> (Inl e, w)
      | Inr data \<Rightarrow>
          (let w1 = emit (HttpPost api_url data 15) w
           in case http out api_url data of
                NoReply \<Rightarrow> (Inl RequestException, w1)
              | Reply code \<Rightarrow> (raise_for_status code, w1)))"

section \<open>main (lines 46 to 90)\<close>

definition required :: "config \<Rightarrow> (pystr \<times> pystr) list" where
  "required cfg =
     [(S ''YOUTUBE_FEED_URL or YOUTUBE_CHANNEL_ID'', FEED_URL cfg),
      (S ''LAST_SEEN_FILE'', LAST_SEEN_FILE cfg),
      (S ''PUSHOVER_USER'', PUSHOVER_USER cfg),
      (S ''PUSHOVER_TOKEN'', PUSHOVER_TOKEN cfg)]"

definition missing :: "config \<Rightarrow> pystr list" where
  "missing cfg =
     map fst (filter (\<lambda>(name, val). \<not> (val \<noteq> [] \<and> py_strip val \<noteq> [])) (required cfg))"

text \<open>Lines 73 to 78: the marker is read and stripped; an absent file gives \<open>None\<close>.\<close>

definition read_last_seen :: "config \<Rightarrow> world \<Rightarrow> pystr option \<times> world" where
  "read_last_seen cfg w =
     (let w1 = emit (FileRead (LAST_SEEN_FILE cfg)) w
      in case files w (LAST_SEEN_FILE cfg) of
           Some text \<Rightarrow> (Some (py_strip text), w1)
         | None \<Rightarrow> (None, emit (Print (S ''LAST_SEEN_FILE not found; treating as first run.'')) w1))"

text \<open>\<open>str(last_seen)\<close> inside the f-string of line 80.\<close>

definition show_last_seen :: "pystr option \<Rightarrow> pystr" where
  "show_last_seen l = (case l of None \<Rightarrow> S ''None'' | Some s \<Rightarrow> s)"

text \<open>Lines 86 and 87: the file is replaced by the video ID.\<close>

definition write_last_seen :: "config \<Rightarrow> pystr \<Rightarrow> world \<Rightarrow> world" where
  "write_last_seen cfg video_id w =
     emit (FileWrite (LAST_SEEN_FILE cfg) video_id)
       (w\<lparr>files := (files w)(LAST_SEEN_FILE cfg \<mapsto> video_id)\<rparr>)"

text \<open>Lines 80 to 90, once the three attributes of the latest entry are in hand.\<close>

definition check_and_notify ::
  "outside \<Rightarrow> config \<Rightarrow> pystr \<Rightarrow> pystr \<Rightarrow> pystr \<Rightarrow> world \<Rightarrow> (exn + unit) \<times> world" where
  "check_and_notify out cfg video_id ttl lnk w =
     (let (last_seen, w1) = read_last_seen cfg w;
          w2 = emit (Print (S ''Last seen video ID: '' @ show_last_seen last_seen)) w1
      in if Some video_id \<noteq> last_seen
         then (let w3 = emit (Print (S ''New video detected. Sending notification and updating LAST_SEEN_FILE.'')) w2
               in case send_pushover_notification out cfg (PUSHOVER_USER cfg) ttl (Some lnk) w3 of
                    (Inl e, w4) \<Rightarrow> (Inl e, w4)
                  | (Inr _, w4) \<Rightarrow>
                      (Inr (), emit (Print (S ''LAST_SEEN_FILE updated.''))
                                 (write_last_seen cfg video_id w4)))
         else (Inr (), emit (Print (S ''No new video. Nothing to do.'')) w2))"

definition main :: "outside \<Rightarrow> world \<Rightarrow> (exn + unit) \<times> world" where
  "main out w =
     (let cfg = load_config (environ out)
      in if missing cfg \<noteq> []
         then (Inr (), emit (Print (S ''Missing required env: '' @ py_join (S '', '') (missing cfg))) w)
         else
           (let w1 = emit (FeedFetch (FEED_URL cfg)) w;
                fd = parse out (FEED_URL cfg)
            in case entries fd of
                 None \<Rightarrow> (Inr (), emit (Print (S ''No entries found in feed. Exiting without sending notification.'')) w1)
               | Some [] \<Rightarrow> (Inr (), emit (Print (S ''No entries found in feed. Exiting without sending notification.'')) w1)
               | Some (latest # _) \<Rightarrow>
                   (case yt_videoid latest of
                      None \<Rightarrow> (Inl AttributeError, w1)
                    | Some video_id \<Rightarrow>
                        (case title latest of
                           None \<Rightarrow> (Inl AttributeError, w1)
                         | Some ttl \<Rightarrow>
                             (case link latest of
                                None \<Rightarrow> (Inl AttributeError, w1)
                              | Some lnk \<Rightarrow> check_and_notify out cfg video_id ttl lnk w1)))))"

section \<open>What a run is observed to do\<close>

text \<open>The actions that a run adds to the trace it started from.\<close>

definition new_events :: "world \<Rightarrow> world \<Rightarrow> event list" where
  "new_events w w' = drop (length (trace w)) (trace w')"

fun is_post :: "event \<Rightarrow> bool" where
  "is_post (HttpPost _ _ _) = True"
| "is_post _ = False"

fun is_file_access :: "event \<Rightarrow> bool" where
  "is_file_access (FileRead _) = True"
| "is_file_access (FileWrite _ _) = True"
| "is_file_access _ = False"

fun is_fetch :: "event \<Rightarrow> bool" where
  "is_fetch (FeedFetch _) = True"
| "is_fetch _ = False"

text \<open>A blank setting: empty, or white space only.\<close>

definition blank :: "pystr \<Rightarrow> bool" where
  "blank s = list_all py_isspace s"

text \<open>A setting taken from the environment that is absent or blank.\<close>

definition absent_or_blank :: "(string \<rightharpoonup> pystr) \<Rightarrow> string \<Rightarrow> bool" where
  "absent_or_blank env name = (case env name of None \<Rightarrow> True | Some v \<Rightarrow> blank v)"

text \<open>A string with no white space at either end.\<close>

definition bare :: "pystr \<Rightarrow> bool" where
  "bare s \<longleftrightarrow> s = [] \<or> (\<not> py_isspace (hd s) \<and> \<not> py_isspace (last s))"

text \<open>The notification call fails: no response, or a status that \<open>raise_for_status\<close> rejects.\<close>

definition reports_failure :: "http_reply \<Rightarrow> bool" where
  "reports_failure r = (case r of NoReply \<Rightarrow> True | Reply code \<Rightarrow> 400 \<le> code \<and> code < 600)"

text \<open>The state in which the notification call of line 84 starts.\<close>

definition before_send :: "config \<Rightarrow> pystr option \<Rightarrow> world \<Rightarrow> world" where
  "before_send cfg last_seen w =
     w\<lparr>trace := trace w @ [FileRead (LAST_SEEN_FILE cfg)] @
         (case last_seen of
            None \<Rightarrow> [Print (S ''LAST_SEEN_FILE not found; treating as first run.'')]
          | Some _ \<Rightarrow> []) @
         [Print (S ''Last seen video ID: '' @ show_last_seen last_seen),
          Print (S ''New video detected. Sending notification and updating LAST_SEEN_FILE.'')]\<rparr>"

section \<open>A concrete installation\<close>

text \<open>
  The example of the specification: the feed's latest entry is \<open>xyz789\<close>, titled
  \<open>My New Upload\<close>, and the four required settings are present.
\<close>

definition demo_env :: "string \<rightharpoonup> pystr" where
  "demo_env = [''YOUTUBE_CHANNEL_ID'' \<mapsto> S ''UC1'', ''LAST_SEEN_FILE'' \<mapsto> S ''last'',
               ''PUSHOVER_USER'' \<mapsto> S ''u'', ''PUSHOVER_TOKEN'' \<mapsto> S ''t'']"

text \<open>The same with emergency priority, a configured retry interval and the default expiration.\<close>

definition urgent_env :: "string \<rightharpoonup> pystr" where
  "urgent_env = demo_env(''PUSHOVER_PRIORITY'' \<mapsto> S ''2'', ''PUSHOVER_RETRY'' \<mapsto> S ''30'')"

text \<open>An environment whose recipient is blank and whose credential is absent.\<close>

definition broken_env :: "string \<rightharpoonup> pystr" where
  "broken_env = [''YOUTUBE_CHANNEL_ID'' \<mapsto> S ''UC1'', ''LAST_SEEN_FILE'' \<mapsto> S ''last'',
                 ''PUSHOVER_USER'' \<mapsto> S ''  '']"

text \<open>An environment whose only feed setting is a channel ID of two spaces.\<close>

definition blank_channel_env :: "string \<rightharpoonup> pystr" where
  "blank_channel_env = [''YOUTUBE_CHANNEL_ID'' \<mapsto> S ''  '', ''LAST_SEEN_FILE'' \<mapsto> S ''last'',
                        ''PUSHOVER_USER'' \<mapsto> S ''u'', ''PUSHOVER_TOKEN'' \<mapsto> S ''t'']"

definition demo_cfg :: config where
  "demo_cfg = \<lparr> FEED_URL = S ''https://www.youtube.com/feeds/videos.xml?channel_id=UC1'',
                 LAST_SEEN_FILE = S ''last'', PUSHOVER_USER = S ''u'', PUSHOVER_TOKEN = S ''t'' \<rparr>"

definition demo_entry :: entry where
  "demo_entry = \<lparr> yt_videoid = Some (S ''xyz789''), title = Some (S ''My New Upload''),
                   link = Some (S ''https://youtu.be/xyz789'') \<rparr>"

definition demo_data :: pydict where
  "demo_data = [(''token'', PStr (S ''t'')), (''user'', PStr (S ''u'')),
                (''title'', PStr notification_title), (''message'', PStr (S ''My New Upload'')),
                (''priority'', PInt 1), (''url'', PStr (S ''https://youtu.be/xyz789'')),
                (''url_title'', PStr (S ''Open Video''))]"

text \<open>The request built under \<open>urgent_env\<close> when no link is passed.\<close>

definition urgent_data :: pydict where
  "urgent_data = [(''token'', PStr (S ''t'')), (''user'', PStr (S ''u'')),
                  (''title'', PStr notification_title), (''message'', PStr (S ''My New Upload'')),
                  (''priority'', PInt 2), (''retry'', PInt 30), (''expire'', PInt 3600)]"

definition demo_out :: "(string \<rightharpoonup> pystr) \<Rightarrow> entry list option \<Rightarrow> http_reply \<Rightarrow> outside" where
  "demo_out env es r = \<lparr> environ = env, parse = (\<lambda>_. \<lparr> entries = es \<rparr>), http = (\<lambda>_ _. r) \<rparr>"

definition demo_world :: "pystr option \<Rightarrow> world" where
  "demo_world marker = \<lparr> files = (\<lambda>p. if p = S ''last'' then marker else None), trace = [] \<rparr>"

section \<open>Basic facts about the state and about strings\<close>

lemma files_emit [simp]: "files (emit e w) = files w"
  by (simp add: emit_def)

lemma trace_emit [simp]: "trace (emit e w) = trace w @ [e]"
  by (simp add: emit_def)

lemma new_events_append [simp]: "trace w' = trace w @ evs \<Longrightarrow> new_events w w' = evs"
  by (simp add: new_events_def)

lemma py_strip_Nil_iff: "py_strip s = [] \<longleftrightarrow> blank s"
proof
  assume "py_strip s = []"
  then have all: "\<forall>c\<in>set (dropWhile py_isspace s). py_isspace c"
    by (simp add: py_strip_def dropWhile_eq_Nil_conv)
  have "dropWhile py_isspace s = []"
  proof (rule ccontr)
    assume ne: "dropWhile py_isspace s \<noteq> []"
    then have "\<not> py_isspace (hd (dropWhile py_isspace s))" by (rule hd_dropWhile)
    moreover have "hd (dropWhile py_isspace s) \<in> set (dropWhile py_isspace s)"
      using ne by simp
    ultimately show False using all by blast
  qed
  then show "blank s" by (simp add: blank_def dropWhile_eq_Nil_conv list_all_iff)
next
  assume "blank s"
  then have "dropWhile py_isspace s = []"
    by (simp add: blank_def dropWhile_eq_Nil_conv list_all_iff)
  then show "py_strip s = []" by (simp only: py_strip_def dropWhile.simps rev.simps)
qed

lemma blank_Nil [simp]: "blank []"
  by (simp add: blank_def)

lemma not_present_iff_blank: "\<not> (v \<noteq> [] \<and> py_strip v \<noteq> []) \<longleftrightarrow> blank v"
  by (cases v) (simp_all add: py_strip_Nil_iff)

lemma py_strip_surrounded:
  assumes l: "blank l" and r: "blank r" and v: "bare v"
  shows "py_strip (l @ v @ r) = v"
proof (cases "v = []")
  case True
  have "blank (l @ r)" using l r by (simp add: blank_def)
  then show ?thesis using True by (simp add: py_strip_Nil_iff [symmetric])
next
  case False
  from v False have h: "\<not> py_isspace (hd v)" and t: "\<not> py_isspace (last v)"
    by (simp_all add: bare_def)
  have "dropWhile py_isspace (l @ v @ r) = dropWhile py_isspace (v @ r)"
    using l by (intro dropWhile_append2) (simp add: blank_def list_all_iff)
  also have "\<dots> = v @ r"
    using False h by (cases v) simp_all
  finally have 1: "dropWhile py_isspace (l @ v @ r) = v @ r" .
  have "dropWhile py_isspace (rev r @ rev v) = dropWhile py_isspace (rev v)"
    using r by (intro dropWhile_append2) (simp add: blank_def list_all_iff)
  also have "\<dots> = rev v"
    using False t by (cases "rev v") (simp_all add: last_rev [symmetric] hd_rev)
  finally show ?thesis by (simp add: py_strip_def 1)
qed

section \<open>The notification call\<close>

lemma send_raises_before_post:
  "build_data (environ out) (PUSHOVER_TOKEN cfg) to text url = Inl e \<Longrightarrow>
   send_pushover_notification out cfg to text url w = (Inl e, w)"
  by (simp add: send_pushover_notification_def)

lemma send_posts:
  "build_data (environ out) (PUSHOVER_TOKEN cfg) to text url = Inr data \<Longrightarrow>
   send_pushover_notification out cfg to text url w =
     (case http out api_url data of
        NoReply \<Rightarrow> Inl RequestException
      | Reply code \<Rightarrow> raise_for_status code,
      emit (HttpPost api_url data 15) w)"
  by (simp add: send_pushover_notification_def Let_def split: http_reply.splits)

lemma send_files [simp]:
  "files (snd (send_pushover_notification out cfg to text url w)) = files w"
  by (simp add: send_pushover_notification_def Let_def split: sum.splits http_reply.splits)

lemma send_ok_iff:
  "fst (send_pushover_notification out cfg to text url w) = Inr () \<longleftrightarrow>
   (\<exists>data. build_data (environ out) (PUSHOVER_TOKEN cfg) to text url = Inr data \<and>
           \<not> reports_failure (http out api_url data))"
  by (auto simp: send_pushover_notification_def Let_def reports_failure_def raise_for_status_def
           split: sum.splits http_reply.splits)

section \<open>The branches of main\<close>

lemma main_missing:
  "missing (load_config (environ out)) \<noteq> [] \<Longrightarrow>
   main out w = (Inr (), emit (Print (S ''Missing required env: '' @
                   py_join (S '', '') (missing (load_config (environ out))))) w)"
  by (simp add: main_def)

lemma main_no_entries:
  assumes "missing (load_config (environ out)) = []"
      and "entries (parse out (FEED_URL (load_config (environ out)))) = None \<or>
           entries (parse out (FEED_URL (load_config (environ out)))) = Some []"
  shows "main out w =
           (Inr (), emit (Print (S ''No entries found in feed. Exiting without sending notification.''))
                      (emit (FeedFetch (FEED_URL (load_config (environ out)))) w))"
  using assms by (auto simp: main_def Let_def)

lemma main_latest:
  assumes "missing (load_config (environ out)) = []"
      and "entries (parse out (FEED_URL (load_config (environ out)))) = Some (latest # rest)"
  shows "main out w =
           (case (yt_videoid latest, title latest, link latest) of
              (Some video_id, Some ttl, Some lnk) \<Rightarrow>
                 check_and_notify out (load_config (environ out)) video_id ttl lnk
                   (emit (FeedFetch (FEED_URL (load_config (environ out)))) w)
            | _ \<Rightarrow> (Inl AttributeError, emit (FeedFetch (FEED_URL (load_config (environ out)))) w))"
  using assms by (simp add: main_def Let_def split: option.splits)

lemma check_same:
  assumes "files w (LAST_SEEN_FILE cfg) = Some text" and "py_strip text = video_id"
  shows "check_and_notify out cfg video_id ttl lnk w =
           (Inr (), w\<lparr>trace := trace w @
              [FileRead (LAST_SEEN_FILE cfg),
               Print (S ''Last seen video ID: '' @ video_id),
               Print (S ''No new video. Nothing to do.'')]\<rparr>)"
  using assms
  by (simp add: check_and_notify_def read_last_seen_def show_last_seen_def emit_def Let_def)

lemma check_new:
  assumes "Some video_id \<noteq> map_option py_strip (files w (LAST_SEEN_FILE cfg))"
  shows "check_and_notify out cfg video_id ttl lnk w =
           (case send_pushover_notification out cfg (PUSHOVER_USER cfg) ttl (Some lnk)
                   (before_send cfg (map_option py_strip (files w (LAST_SEEN_FILE cfg))) w) of
              (Inl e, w') \<Rightarrow> (Inl e, w')
            | (Inr _, w') \<Rightarrow>
                (Inr (), emit (Print (S ''LAST_SEEN_FILE updated.'')) (write_last_seen cfg video_id w')))"
  using assms
  by (cases "files w (LAST_SEEN_FILE cfg)")
     (simp_all add: check_and_notify_def read_last_seen_def before_send_def emit_def Let_def)

lemma trace_before_send [simp]:
  "trace (before_send cfg l w) = trace w @ FileRead (LAST_SEEN_FILE cfg) #
         (case l of
            None \<Rightarrow> [Print (S ''LAST_SEEN_FILE not found; treating as first run.'')]
          | Some _ \<Rightarrow> []) @
         [Print (S ''Last seen video ID: '' @ show_last_seen l),
          Print (S ''New video detected. Sending notification and updating LAST_SEEN_FILE.'')]"
  by (simp add: before_send_def)

lemma files_before_send [simp]: "files (before_send cfg l w) = files w"
  by (simp add: before_send_def)

lemma check_and_notify_files:
  "(fst (check_and_notify out cfg video_id ttl lnk w) \<noteq> Inr () \<longrightarrow>
      files (snd (check_and_notify out cfg video_id ttl lnk w)) = files w) \<and>
   (files (snd (check_and_notify out cfg video_id ttl lnk w)) \<noteq> files w \<longrightarrow>
      (\<exists>data. HttpPost api_url data 15 \<in>
                set (new_events w (snd (check_and_notify out cfg video_id ttl lnk w))) \<and>
              \<not> reports_failure (http out api_url data)))"
  by (auto simp: check_and_notify_def read_last_seen_def write_last_seen_def
        send_pushover_notification_def new_events_def reports_failure_def raise_for_status_def
        emit_def Let_def
        split: option.splits sum.splits http_reply.splits if_splits)

lemma new_events_after_emit:
  "set (new_events (emit e w) w') \<subseteq> set (new_events w w')"
  by (simp add: new_events_def set_drop_subset_set_drop)

section \<open>The concrete installation, evaluated\<close>

lemma load_demo: "load_config demo_env = demo_cfg"
  by (simp add: load_config_def demo_env_def demo_cfg_def env_get_def S_def py_strip_def py_isspace_def)

lemma missing_demo: "missing demo_cfg = []"
  by (simp add: missing_def required_def demo_cfg_def S_def py_strip_def py_isspace_def)

lemma build_demo:
  "build_data demo_env (S ''t'') (S ''u'') (S ''My New Upload'') (Some (S ''https://youtu.be/xyz789''))
     = Inr demo_data"
  by (simp add: build_data_def demo_env_def env_get_def demo_data_def py_int_def S_def
        int_isspace_def py_isspace_def is_digit_def)

lemma demo_out_sel [simp]:
  "environ (demo_out env es r) = env"
  "parse (demo_out env es r) u = \<lparr> entries = es \<rparr>"
  "http (demo_out env es r) u d = r"
  by (simp_all add: demo_out_def)

lemma demo_cfg_sel [simp]:
  "LAST_SEEN_FILE demo_cfg = S ''last''"
  "PUSHOVER_USER demo_cfg = S ''u''"
  "PUSHOVER_TOKEN demo_cfg = S ''t''"
  by (simp_all add: demo_cfg_def)

lemma demo_world_sel [simp]:
  "files (demo_world m) (S ''last'') = m"
  "trace (demo_world m) = []"
  by (simp_all add: demo_world_def)

lemma demo_entry_sel [simp]:
  "yt_videoid demo_entry = Some (S ''xyz789'')"
  "title demo_entry = Some (S ''My New Upload'')"
  "link demo_entry = Some (S ''https://youtu.be/xyz789'')"
  by (simp_all add: demo_entry_def)

lemma demo_main:
  "main (demo_out demo_env (Some (demo_entry # rest)) r) w =
     check_and_notify (demo_out demo_env (Some (demo_entry # rest)) r) demo_cfg
       (S ''xyz789'') (S ''My New Upload'') (S ''https://youtu.be/xyz789'')
       (emit (FeedFetch (FEED_URL demo_cfg)) w)"
  by (simp add: main_latest load_demo missing_demo)

lemma demo_send:
  "send_pushover_notification (demo_out demo_env es r) demo_cfg (S ''u'') (S ''My New Upload'')
       (Some (S ''https://youtu.be/xyz789'')) w =
     (case r of NoReply \<Rightarrow> Inl RequestException | Reply code \<Rightarrow> raise_for_status code,
      emit (HttpPost api_url demo_data 15) w)"
  by (simp add: send_posts build_demo)

lemma demo_new: "S ''xyz789'' \<noteq> py_strip (S ''abc123'')"
  by (simp add: S_def py_strip_def py_isspace_def)

section \<open>The marker is written only after a successful notification\<close>

text \<open>
  Claim C1. When the notification call fails, the marker file is left as it was. For every
  environment and every state before the run: if any exception leaves \<open>main\<close>
  (every failure of \<open>send_pushover_notification\<close> does, as nothing catches it), the
  files after the run are the files before it; and the files differ after the run only
  if a POST was made whose answer \<open>raise_for_status\<close> accepted.
\<close>

theorem marker_kept_when_notification_fails:
  "(fst (main out w) \<noteq> Inr () \<longrightarrow> files (snd (main out w)) = files w) \<and>
   (files (snd (main out w)) \<noteq> files w \<longrightarrow>
      (\<exists>data. HttpPost api_url data 15 \<in> set (new_events w (snd (main out w))) \<and>
              \<not> reports_failure (http out api_url data)))"
proof (cases "missing (load_config (environ out)) = []")
  case False
  then show ?thesis by (simp add: main_missing)
next
  case cfg: True
  show ?thesis
  proof (cases "entries (parse out (FEED_URL (load_config (environ out))))")
    case None
    then show ?thesis by (simp add: main_no_entries [OF cfg])
  next
    case (Some es)
    show ?thesis
    proof (cases es)
      case Nil
      with Some show ?thesis by (simp add: main_no_entries [OF cfg])
    next
      case (Cons latest rest)
      with Some have m: "entries (parse out (FEED_URL (load_config (environ out)))) = Some (latest # rest)"
        by simp
      show ?thesis
      proof (cases "\<exists>v t l. yt_videoid latest = Some v \<and> title latest = Some t \<and> link latest = Some l")
        case False
        then show ?thesis
          by (auto simp: main_latest [OF cfg m] split: option.splits)
      next
        case True
        then obtain v t l where
          a: "yt_videoid latest = Some v" "title latest = Some t" "link latest = Some l"
          by blast
        define w1 where "w1 = emit (FeedFetch (FEED_URL (load_config (environ out)))) w"
        have eq: "main out w = check_and_notify out (load_config (environ out)) v t l w1"
          by (simp add: main_latest [OF cfg m] a w1_def)
        have f: "files w1 = files w" by (simp add: w1_def)
        have sub: "set (new_events w1 (snd (main out w))) \<subseteq> set (new_events w (snd (main out w)))"
          unfolding w1_def by (rule new_events_after_emit)
        from check_and_notify_files [of out "load_config (environ out)" v t l w1] sub
        show ?thesis unfolding eq [symmetric] f by blast
      qed
    qed
  qed
qed

theorem marker_kept_when_notification_fails_witness:
  "(fst (main (demo_out demo_env (Some [demo_entry]) (Reply 500)) (demo_world (Some (S ''abc123''))))
      \<noteq> Inr () \<and>
    files (snd (main (demo_out demo_env (Some [demo_entry]) (Reply 500)) (demo_world (Some (S ''abc123'')))))
      = files (demo_world (Some (S ''abc123'')))) \<and>
   (files (snd (main (demo_out demo_env (Some [demo_entry]) (Reply 200)) (demo_world (Some (S ''abc123'')))))
      \<noteq> files (demo_world (Some (S ''abc123''))) \<and>
    (\<exists>data. HttpPost api_url data 15 \<in> set (new_events (demo_world (Some (S ''abc123'')))
               (snd (main (demo_out demo_env (Some [demo_entry]) (Reply 200)) (demo_world (Some (S ''abc123'')))))) \<and>
            \<not> reports_failure (http (demo_out demo_env (Some [demo_entry]) (Reply 200)) api_url data)))"
proof -
  let ?w = "demo_world (Some (S ''abc123''))"
  let ?bad = "demo_out demo_env (Some [demo_entry]) (Reply 500)"
  let ?good = "demo_out demo_env (Some [demo_entry]) (Reply 200)"
  have raised: "fst (main ?bad ?w) \<noteq> Inr ()"
    by (simp add: demo_main check_new demo_new demo_send raise_for_status_def)
  have "files (snd (main ?good ?w)) (S ''last'') = Some (S ''xyz789'')"
    by (simp add: demo_main check_new demo_new demo_send raise_for_status_def write_last_seen_def)
  moreover have "S ''xyz789'' \<noteq> S ''abc123''" by (simp add: S_def)
  ultimately have changed: "files (snd (main ?good ?w)) \<noteq> files ?w"
    by (metis demo_world_sel(1) option.inject)
  from raised changed
    marker_kept_when_notification_fails [of ?bad ?w]
    marker_kept_when_notification_fails [of ?good ?w]
  show ?thesis by blast
qed

section \<open>A new video: one POST, then the marker\<close>

text \<open>
  Claim C2. The four required settings are present, the optional numeric settings
  parse (the request dictionary \<open>data\<close> can be built), and the latest entry, which
  carries its three attributes, has a video ID that differs from the stripped marker
  (an absent marker file differs from every ID). Then the run makes exactly one POST, the
  request \<open>data\<close> to the notification endpoint; and if that call does not fail, the
  run returns normally and the marker file holds the new video ID, all other files being
  as before.
\<close>

theorem new_video_is_notified_once:
  assumes cfg: "cfg = load_config (environ out)"
      and complete: "missing cfg = []"
      and feed: "entries (parse out (FEED_URL cfg)) = Some (latest # rest)"
      and attrs: "yt_videoid latest = Some video_id" "title latest = Some ttl" "link latest = Some lnk"
      and new: "Some video_id \<noteq> map_option py_strip (files w (LAST_SEEN_FILE cfg))"
      and data: "build_data (environ out) (PUSHOVER_TOKEN cfg) (PUSHOVER_USER cfg) ttl (Some lnk) = Inr data"
  shows "filter is_post (new_events w (snd (main out w))) = [HttpPost api_url data 15] \<and>
         (\<not> reports_failure (http out api_url data) \<longrightarrow>
            fst (main out w) = Inr () \<and>
            files (snd (main out w)) = (files w)(LAST_SEEN_FILE cfg \<mapsto> video_id))"
proof -
  let ?w1 = "emit (FeedFetch (FEED_URL cfg)) w"
  let ?w3 = "before_send cfg (map_option py_strip (files w (LAST_SEEN_FILE cfg))) ?w1"
  have m: "main out w = check_and_notify out cfg video_id ttl lnk ?w1"
    using complete feed attrs unfolding cfg by (simp add: main_latest)
  have s: "send_pushover_notification out cfg (PUSHOVER_USER cfg) ttl (Some lnk) ?w3 =
             (case http out api_url data of
                NoReply \<Rightarrow> Inl RequestException
              | Reply code \<Rightarrow> raise_for_status code,
              emit (HttpPost api_url data 15) ?w3)"
    using data by (rule send_posts)
  have c: "main out w =
             (case send_pushover_notification out cfg (PUSHOVER_USER cfg) ttl (Some lnk) ?w3 of
                (Inl e, w') \<Rightarrow> (Inl e, w')
              | (Inr _, w') \<Rightarrow>
                  (Inr (), emit (Print (S ''LAST_SEEN_FILE updated.'')) (write_last_seen cfg video_id w')))"
    unfolding m using new check_new [of video_id ?w1 cfg out ttl lnk] by simp
  show ?thesis
    unfolding c s
    by (cases "http out api_url data")
       (auto simp: raise_for_status_def reports_failure_def write_last_seen_def new_events_def
             split: option.splits)
qed

theorem new_video_is_notified_once_witness:
  "missing demo_cfg = [] \<and>
   Some (S ''xyz789'') \<noteq> map_option py_strip (files (demo_world (Some (S ''abc123''))) (S ''last'')) \<and>
   filter is_post (new_events (demo_world (Some (S ''abc123'')))
     (snd (main (demo_out demo_env (Some [demo_entry]) (Reply 200)) (demo_world (Some (S ''abc123''))))))
     = [HttpPost api_url demo_data 15] \<and>
   fst (main (demo_out demo_env (Some [demo_entry]) (Reply 200)) (demo_world (Some (S ''abc123''))))
     = Inr () \<and>
   files (snd (main (demo_out demo_env (Some [demo_entry]) (Reply 200)) (demo_world (Some (S ''abc123'')))))
     = (files (demo_world (Some (S ''abc123''))))(S ''last'' \<mapsto> S ''xyz789'')"
proof -
  let ?out = "demo_out demo_env (Some [demo_entry]) (Reply 200)"
  let ?w = "demo_world (Some (S ''abc123''))"
  have new: "Some (S ''xyz789'') \<noteq> map_option py_strip (files ?w (LAST_SEEN_FILE demo_cfg))"
    using demo_new by simp
  have ok: "\<not> reports_failure (http ?out api_url demo_data)"
    by (simp add: reports_failure_def)
  from new_video_is_notified_once [of demo_cfg ?out demo_entry "[]" "S ''xyz789''"
      "S ''My New Upload''" "S ''https://youtu.be/xyz789''" ?w demo_data]
    new ok missing_demo
  show ?thesis by (simp add: load_demo build_demo)
qed

section \<open>A video already seen\<close>

text \<open>
  Claim C3. When the latest entry's video ID equals the last-seen ID read from the marker
  file (its stripped text), the run makes no POST and leaves every file as it was: it
  fetches the feed, reads the marker, prints two lines and returns.
\<close>

theorem seen_video_is_a_no_op:
  assumes cfg: "cfg = load_config (environ out)"
      and complete: "missing cfg = []"
      and feed: "entries (parse out (FEED_URL cfg)) = Some (latest # rest)"
      and attrs: "yt_videoid latest = Some video_id" "title latest = Some ttl" "link latest = Some lnk"
      and marker: "files w (LAST_SEEN_FILE cfg) = Some text"
      and same: "video_id = py_strip text"
  shows "fst (main out w) = Inr () \<and>
         files (snd (main out w)) = files w \<and>
         filter is_post (new_events w (snd (main out w))) = [] \<and>
         new_events w (snd (main out w)) =
           [FeedFetch (FEED_URL cfg), FileRead (LAST_SEEN_FILE cfg),
            Print (S ''Last seen video ID: '' @ video_id),
            Print (S ''No new video. Nothing to do.'')]"
proof -
  let ?w1 = "emit (FeedFetch (FEED_URL cfg)) w"
  have m: "main out w = check_and_notify out cfg video_id ttl lnk ?w1"
    using complete feed attrs unfolding cfg by (simp add: main_latest)
  have "files ?w1 (LAST_SEEN_FILE cfg) = Some text" using marker by simp
  from check_same [OF this same [symmetric], of out ttl lnk]
  show ?thesis unfolding m by (simp add: new_events_def)
qed

lemma demo_same: "S ''xyz789'' = py_strip (S ''xyz789'')"
  by (simp add: S_def py_strip_def py_isspace_def)

theorem seen_video_is_a_no_op_witness:
  "missing demo_cfg = [] \<and>
   files (demo_world (Some (S ''xyz789''))) (S ''last'') = Some (S ''xyz789'') \<and>
   fst (main (demo_out demo_env (Some [demo_entry]) NoReply) (demo_world (Some (S ''xyz789'')))) = Inr () \<and>
   files (snd (main (demo_out demo_env (Some [demo_entry]) NoReply) (demo_world (Some (S ''xyz789'')))))
     = files (demo_world (Some (S ''xyz789''))) \<and>
   filter is_post (new_events (demo_world (Some (S ''xyz789'')))
     (snd (main (demo_out demo_env (Some [demo_entry]) NoReply) (demo_world (Some (S ''xyz789'')))))) = []"
  using seen_video_is_a_no_op [of demo_cfg "demo_out demo_env (Some [demo_entry]) NoReply"
      demo_entry "[]" "S ''xyz789''" "S ''My New Upload''" "S ''https://youtu.be/xyz789''"
      "demo_world (Some (S ''xyz789''))" "S ''xyz789''"]
    missing_demo demo_same
  by (simp add: load_demo)

text \<open>
  Running twice: after a run that returned normally on a feed whose latest entry has an ID
  without white space at its ends, a second run on the same feed makes no POST and leaves
  the files as the first run left them.
\<close>

lemma py_strip_bare: "bare v \<Longrightarrow> py_strip v = v"
  using py_strip_surrounded [of "[]" "[]" v] by simp

lemma marker_after_success:
  assumes ok: "fst (check_and_notify out cfg video_id ttl lnk w) = Inr ()"
      and bare: "bare video_id"
  shows "\<exists>marker. files (snd (check_and_notify out cfg video_id ttl lnk w)) (LAST_SEEN_FILE cfg) = Some marker \<and>
                  py_strip marker = video_id"
proof (cases "Some video_id = map_option py_strip (files w (LAST_SEEN_FILE cfg))")
  case True
  then obtain marker where m: "files w (LAST_SEEN_FILE cfg) = Some marker" "py_strip marker = video_id"
    by (cases "files w (LAST_SEEN_FILE cfg)") auto
  then show ?thesis by (simp add: check_same)
next
  case False
  show ?thesis
    using ok py_strip_bare [OF bare]
    by (auto simp: check_new [OF False] write_last_seen_def split: prod.splits sum.splits)
qed

lemma second_run_is_a_no_op:
  assumes cfg: "cfg = load_config (environ out)"
      and complete: "missing cfg = []"
      and feed: "entries (parse out (FEED_URL cfg)) = Some (latest # rest)"
      and attrs: "yt_videoid latest = Some video_id" "title latest = Some ttl" "link latest = Some lnk"
      and bare: "bare video_id"
      and ok: "fst (main out w) = Inr ()"
  shows "fst (main out (snd (main out w))) = Inr () \<and>
         files (snd (main out (snd (main out w)))) = files (snd (main out w)) \<and>
         filter is_post (new_events (snd (main out w)) (snd (main out (snd (main out w))))) = []"
proof -
  have m: "main out w' = check_and_notify out cfg video_id ttl lnk (emit (FeedFetch (FEED_URL cfg)) w')"
    for w'
    using complete feed attrs unfolding cfg by (simp add: main_latest)
  from ok bare obtain marker where
    "files (snd (main out w)) (LAST_SEEN_FILE cfg) = Some marker" "py_strip marker = video_id"
    unfolding m [of w] using marker_after_success by blast
  then have "files (emit (FeedFetch (FEED_URL cfg)) (snd (main out w))) (LAST_SEEN_FILE cfg) = Some marker"
    and "py_strip marker = video_id"
    by simp_all
  from check_same [OF this, of out ttl lnk]
  show ?thesis unfolding m [of "snd (main out w)"] by (simp add: new_events_def)
qed

section \<open>A feed without entries\<close>

text \<open>
  Claim C4. When the parse result has no entries (the attribute is missing, or the list is
  empty), the run returns normally, makes no POST, neither reads nor writes any file, and
  its last action is a printed diagnostic: after the fetch it prints that the feed has no
  entries (and when a required setting is missing it prints that instead, without
  fetching).
\<close>

theorem empty_feed_is_a_no_op:
  assumes cfg: "cfg = load_config (environ out)"
      and empty: "entries (parse out (FEED_URL cfg)) = None \<or> entries (parse out (FEED_URL cfg)) = Some []"
  shows "fst (main out w) = Inr () \<and>
         files (snd (main out w)) = files w \<and>
         filter is_post (new_events w (snd (main out w))) = [] \<and>
         filter is_file_access (new_events w (snd (main out w))) = [] \<and>
         new_events w (snd (main out w)) =
           (if missing cfg = []
            then [FeedFetch (FEED_URL cfg),
                  Print (S ''No entries found in feed. Exiting without sending notification.'')]
            else [Print (S ''Missing required env: '' @ py_join (S '', '') (missing cfg))])"
proof (cases "missing cfg = []")
  case True
  with empty show ?thesis
    unfolding cfg by (simp add: main_no_entries new_events_def)
next
  case False
  then show ?thesis
    unfolding cfg by (simp add: main_missing new_events_def)
qed

theorem empty_feed_is_a_no_op_witness:
  "entries (parse (demo_out demo_env (Some []) (Reply 200)) (FEED_URL demo_cfg)) = Some [] \<and>
   fst (main (demo_out demo_env (Some []) (Reply 200)) (demo_world None)) = Inr () \<and>
   files (snd (main (demo_out demo_env (Some []) (Reply 200)) (demo_world None))) = files (demo_world None) \<and>
   new_events (demo_world None) (snd (main (demo_out demo_env (Some []) (Reply 200)) (demo_world None))) =
     [FeedFetch (FEED_URL demo_cfg),
      Print (S ''No entries found in feed. Exiting without sending notification.'')] \<and>
   fst (main (demo_out demo_env None (Reply 200)) (demo_world None)) = Inr ()"
  using empty_feed_is_a_no_op [of demo_cfg "demo_out demo_env (Some []) (Reply 200)" "demo_world None"]
    empty_feed_is_a_no_op [of demo_cfg "demo_out demo_env None (Reply 200)" "demo_world None"]
    missing_demo
  by (simp add: load_demo)

section \<open>Missing settings\<close>

lemma absent_or_blank_env_get: "blank (env_get env name []) \<longleftrightarrow> absent_or_blank env name"
  by (simp add: env_get_def absent_or_blank_def split: option.splits)

lemma blank_py_strip: "blank (py_strip s) \<longleftrightarrow> blank s"
proof
  assume b: "blank (py_strip s)"
  have "py_strip s = []"
  proof (rule ccontr)
    assume ne: "py_strip s \<noteq> []"
    let ?t = "dropWhile py_isspace (rev (dropWhile py_isspace s))"
    from ne have t: "?t \<noteq> []" by (simp add: py_strip_def)
    then have "\<not> py_isspace (hd ?t)" by (rule hd_dropWhile)
    moreover have "hd ?t \<in> set (py_strip s)" using t by (simp add: py_strip_def)
    ultimately show False using b by (auto simp: blank_def list_all_iff)
  qed
  then show "blank s" by (simp add: py_strip_Nil_iff)
next
  assume "blank s"
  then have "py_strip s = []" by (simp add: py_strip_Nil_iff)
  then show "blank (py_strip s)" by simp
qed

lemma feed_source_blank_iff:
  "blank (FEED_URL (load_config env)) \<longleftrightarrow>
     (case env ''YOUTUBE_FEED_URL'' of
        Some u \<Rightarrow> blank u
      | None \<Rightarrow> env_get env ''YOUTUBE_CHANNEL_ID'' [] = [])"
proof -
  have url: "\<not> blank (S ''https://www.youtube.com/feeds/videos.xml?channel_id='' @ c)" for c
    by (simp add: blank_def S_def py_isspace_def)
  show ?thesis
    by (simp add: load_config_def Let_def blank_py_strip env_get_def url split: option.splits)
qed

lemma missing_eq:
  "missing (load_config env) =
     (if blank (FEED_URL (load_config env)) then [S ''YOUTUBE_FEED_URL or YOUTUBE_CHANNEL_ID''] else []) @
     (if absent_or_blank env ''LAST_SEEN_FILE'' then [S ''LAST_SEEN_FILE''] else []) @
     (if absent_or_blank env ''PUSHOVER_USER'' then [S ''PUSHOVER_USER''] else []) @
     (if absent_or_blank env ''PUSHOVER_TOKEN'' then [S ''PUSHOVER_TOKEN''] else [])"
proof -
  have "missing (load_config env) =
          map fst (filter (\<lambda>(name, val). blank val) (required (load_config env)))"
    unfolding missing_def not_present_iff_blank ..
  also have "\<dots> =
     (if blank (FEED_URL (load_config env)) then [S ''YOUTUBE_FEED_URL or YOUTUBE_CHANNEL_ID''] else []) @
     (if blank (LAST_SEEN_FILE (load_config env)) then [S ''LAST_SEEN_FILE''] else []) @
     (if blank (PUSHOVER_USER (load_config env)) then [S ''PUSHOVER_USER''] else []) @
     (if blank (PUSHOVER_TOKEN (load_config env)) then [S ''PUSHOVER_TOKEN''] else [])"
    by (simp add: required_def)
  also have "blank (LAST_SEEN_FILE (load_config env)) \<longleftrightarrow> absent_or_blank env ''LAST_SEEN_FILE''"
    by (simp add: load_config_def Let_def absent_or_blank_env_get)
  also have "blank (PUSHOVER_USER (load_config env)) \<longleftrightarrow> absent_or_blank env ''PUSHOVER_USER''"
    by (simp add: load_config_def Let_def absent_or_blank_env_get)
  also have "blank (PUSHOVER_TOKEN (load_config env)) \<longleftrightarrow> absent_or_blank env ''PUSHOVER_TOKEN''"
    by (simp add: load_config_def Let_def absent_or_blank_env_get)
  finally show ?thesis .
qed

text \<open>
  What the check of lines 50 to 59 does. When the resolved feed URL is blank, or the marker
  path, the recipient or the credential is absent or blank (a variable that is not set
  reads as the empty string), the run prints one line naming every such setting, in the
  order of the list \<open>required\<close>, and returns: that line is its only action (no feed
  fetch, no POST, no file read or write) and the files are unchanged. Lemma
  \<open>feed_source_blank_iff\<close> says when the resolved feed URL is blank.
\<close>

lemma unusable_setting_aborts:
  assumes cfg: "cfg = load_config (environ out)"
      and unusable: "blank (FEED_URL cfg) \<or> absent_or_blank (environ out) ''LAST_SEEN_FILE'' \<or>
                     absent_or_blank (environ out) ''PUSHOVER_USER'' \<or>
                     absent_or_blank (environ out) ''PUSHOVER_TOKEN''"
  shows "fst (main out w) = Inr () \<and>
         files (snd (main out w)) = files w \<and>
         new_events w (snd (main out w)) =
           [Print (S ''Missing required env: '' @ py_join (S '', '') (missing cfg))] \<and>
         filter is_fetch (new_events w (snd (main out w))) = [] \<and>
         filter is_post (new_events w (snd (main out w))) = [] \<and>
         filter is_file_access (new_events w (snd (main out w))) = [] \<and>
         missing cfg =
           (if blank (FEED_URL cfg) then [S ''YOUTUBE_FEED_URL or YOUTUBE_CHANNEL_ID''] else []) @
           (if absent_or_blank (environ out) ''LAST_SEEN_FILE'' then [S ''LAST_SEEN_FILE''] else []) @
           (if absent_or_blank (environ out) ''PUSHOVER_USER'' then [S ''PUSHOVER_USER''] else []) @
           (if absent_or_blank (environ out) ''PUSHOVER_TOKEN'' then [S ''PUSHOVER_TOKEN''] else [])"
proof -
  have eq: "missing cfg =
           (if blank (FEED_URL cfg) then [S ''YOUTUBE_FEED_URL or YOUTUBE_CHANNEL_ID''] else []) @
           (if absent_or_blank (environ out) ''LAST_SEEN_FILE'' then [S ''LAST_SEEN_FILE''] else []) @
           (if absent_or_blank (environ out) ''PUSHOVER_USER'' then [S ''PUSHOVER_USER''] else []) @
           (if absent_or_blank (environ out) ''PUSHOVER_TOKEN'' then [S ''PUSHOVER_TOKEN''] else [])"
    unfolding cfg by (rule missing_eq)
  have "missing cfg \<noteq> []"
    using unusable unfolding eq by auto
  then have "main out w =
      (Inr (), emit (Print (S ''Missing required env: '' @ py_join (S '', '') (missing cfg))) w)"
    unfolding cfg by (rule main_missing)
  then show ?thesis using eq by (simp add: new_events_def)
qed

lemma unusable_setting_aborts_example:
  "absent_or_blank broken_env ''PUSHOVER_USER'' \<and> absent_or_blank broken_env ''PUSHOVER_TOKEN'' \<and>
   fst (main (demo_out broken_env (Some [demo_entry]) (Reply 200)) (demo_world None)) = Inr () \<and>
   files (snd (main (demo_out broken_env (Some [demo_entry]) (Reply 200)) (demo_world None)))
     = files (demo_world None) \<and>
   new_events (demo_world None)
       (snd (main (demo_out broken_env (Some [demo_entry]) (Reply 200)) (demo_world None)))
     = [Print (S ''Missing required env: PUSHOVER_USER, PUSHOVER_TOKEN'')]"
proof -
  let ?out = "demo_out broken_env (Some [demo_entry]) (Reply 200)"
  have u: "absent_or_blank broken_env ''PUSHOVER_USER''"
    by (simp add: absent_or_blank_def broken_env_def blank_def S_def py_isspace_def)
  have t: "absent_or_blank broken_env ''PUSHOVER_TOKEN''"
    by (simp add: absent_or_blank_def broken_env_def)
  have l: "\<not> absent_or_blank broken_env ''LAST_SEEN_FILE''"
    by (simp add: absent_or_blank_def broken_env_def blank_def S_def py_isspace_def)
  have f: "\<not> blank (FEED_URL (load_config broken_env))"
    by (simp add: feed_source_blank_iff broken_env_def env_get_def S_def)
  have msg: "S ''Missing required env: '' @ py_join (S '', '') [S ''PUSHOVER_USER'', S ''PUSHOVER_TOKEN'']
              = S ''Missing required env: PUSHOVER_USER, PUSHOVER_TOKEN''"
    by (simp add: S_def)
  from unusable_setting_aborts [of "load_config broken_env" ?out "demo_world None"] u t l f msg
  show ?thesis by simp
qed

lemma load_blank_channel:
  "load_config blank_channel_env =
     demo_cfg\<lparr>FEED_URL := S ''https://www.youtube.com/feeds/videos.xml?channel_id=''\<rparr>"
  by (simp add: load_config_def blank_channel_env_def demo_cfg_def env_get_def S_def py_strip_def
        py_isspace_def)

lemma build_blank_channel:
  "build_data blank_channel_env (S ''t'') (S ''u'') (S ''My New Upload'')
     (Some (S ''https://youtu.be/xyz789'')) = Inr demo_data"
  by (simp add: build_data_def blank_channel_env_def env_get_def demo_data_def py_int_def S_def
        int_isspace_def py_isspace_def is_digit_def)

text \<open>
  Claim C5 says that a required setting that is blank, the feed source included, is
  reported by name and ends the run before any fetch, POST or file access. Line 56 strips
  every value it tests and line 19 strips the feed URL, but line 18 tests the channel ID
  as it is: with a channel ID of two spaces and no feed URL, both feed settings are absent
  or blank, yet the derived URL is not, nothing is reported, and the run fetches that URL,
  posts the notification and writes the marker.
\<close>

theorem blank_channel_id_is_not_reported:
  "absent_or_blank blank_channel_env ''YOUTUBE_FEED_URL'' \<and>
   absent_or_blank blank_channel_env ''YOUTUBE_CHANNEL_ID'' \<and>
   missing (load_config blank_channel_env) = [] \<and>
   main (demo_out blank_channel_env (Some [demo_entry]) (Reply 200)) (demo_world None) =
     (Inr (),
      \<lparr> files = (files (demo_world None))(S ''last'' \<mapsto> S ''xyz789''),
        trace =
          [FeedFetch (S ''https://www.youtube.com/feeds/videos.xml?channel_id=''),
           FileRead (S ''last''),
           Print (S ''LAST_SEEN_FILE not found; treating as first run.''),
           Print (S ''Last seen video ID: '' @ S ''None''),
           Print (S ''New video detected. Sending notification and updating LAST_SEEN_FILE.''),
           HttpPost api_url demo_data 15,
           FileWrite (S ''last'') (S ''xyz789''),
           Print (S ''LAST_SEEN_FILE updated.'')] \<rparr>)"
proof -
  let ?out = "demo_out blank_channel_env (Some [demo_entry]) (Reply 200)"
  let ?cfg = "demo_cfg\<lparr>FEED_URL := S ''https://www.youtube.com/feeds/videos.xml?channel_id=''\<rparr>"
  have u: "absent_or_blank blank_channel_env ''YOUTUBE_FEED_URL''"
    by (simp add: absent_or_blank_def blank_channel_env_def)
  have c: "absent_or_blank blank_channel_env ''YOUTUBE_CHANNEL_ID''"
    by (simp add: absent_or_blank_def blank_channel_env_def blank_def S_def py_isspace_def)
  have m: "missing ?cfg = []"
    by (simp add: missing_def required_def demo_cfg_def S_def py_strip_def py_isspace_def)
  have sel: "LAST_SEEN_FILE ?cfg = S ''last''" "PUSHOVER_USER ?cfg = S ''u''"
    "PUSHOVER_TOKEN ?cfg = S ''t''"
    "FEED_URL ?cfg = S ''https://www.youtube.com/feeds/videos.xml?channel_id=''"
    by simp_all
  have s: "send_pushover_notification ?out ?cfg (S ''u'') (S ''My New Upload'')
             (Some (S ''https://youtu.be/xyz789'')) w =
           (Inr (), emit (HttpPost api_url demo_data 15) w)" for w
    by (simp add: send_posts build_blank_channel raise_for_status_def)
  have "main ?out (demo_world None) =
          check_and_notify ?out ?cfg (S ''xyz789'') (S ''My New Upload'') (S ''https://youtu.be/xyz789'')
            (emit (FeedFetch (FEED_URL ?cfg)) (demo_world None))"
    using m by (simp add: main_latest load_blank_channel)
  also have "\<dots> =
     (Inr (),
      \<lparr> files = (files (demo_world None))(S ''last'' \<mapsto> S ''xyz789''),
        trace =
          [FeedFetch (S ''https://www.youtube.com/feeds/videos.xml?channel_id=''),
           FileRead (S ''last''),
           Print (S ''LAST_SEEN_FILE not found; treating as first run.''),
           Print (S ''Last seen video ID: '' @ S ''None''),
           Print (S ''New video detected. Sending notification and updating LAST_SEEN_FILE.''),
           HttpPost api_url demo_data 15,
           FileWrite (S ''last'') (S ''xyz789''),
           Print (S ''LAST_SEEN_FILE updated.'')] \<rparr>)"
    by (simp add: check_new sel s before_send_def show_last_seen_def write_last_seen_def emit_def)
  finally show ?thesis using u c m by (simp add: load_blank_channel)
qed

section \<open>The request dictionary\<close>

lemma py_int_60: "py_int (S ''60'') = Inr 60"
  by (simp add: S_def py_int_def int_isspace_def py_isspace_def is_digit_def)

lemma py_int_3600: "py_int (S ''3600'') = Inr 3600"
  by (simp add: S_def py_int_def int_isspace_def py_isspace_def is_digit_def)

lemma env_get_unset: "env name = None \<Longrightarrow> env_get env name d = d"
  by (simp add: env_get_def)

text \<open>The dictionary that lines 25 to 40 build, written out.\<close>

lemma build_data_Inr:
  assumes "build_data env token to text url = Inr data"
  shows "\<exists>priority.
           py_int (env_get env ''PUSHOVER_PRIORITY'' (S ''1'')) = Inr priority \<and>
           (\<exists>extra.
              (if priority = 2
               then \<exists>retry expire.
                      py_int (env_get env ''PUSHOVER_RETRY'' (S ''60'')) = Inr retry \<and>
                      py_int (env_get env ''PUSHOVER_EXPIRE'' (S ''3600'')) = Inr expire \<and>
                      extra = [(''retry'', PInt retry), (''expire'', PInt expire)]
               else extra = []) \<and>
              data = [(''token'', PStr token), (''user'', PStr to),
                      (''title'', PStr notification_title), (''message'', PStr text),
                      (''priority'', PInt priority)] @ extra @
                     (case url of
                        None \<Rightarrow> []
                      | Some u \<Rightarrow> [(''url'', PStr u), (''url_title'', PStr (S ''Open Video''))]))"
  using assms
  by (auto simp: build_data_def Let_def split: sum.splits if_splits option.splits)

lemma send_post_event:
  assumes "HttpPost u data t \<in> set (new_events w (snd (send_pushover_notification out cfg to text url w)))"
  shows "build_data (environ out) (PUSHOVER_TOKEN cfg) to text url = Inr data \<and> u = api_url \<and> t = 15"
  using assms
  by (auto simp: send_pushover_notification_def Let_def new_events_def
           split: sum.splits http_reply.splits)

text \<open>
  Claim C6. In every request that \<open>send_pushover_notification\<close> posts, the priority
  is the integer read from the configured priority, and the keys \<open>retry\<close> and
  \<open>expire\<close> are present if and only if that priority is 2. When they are present
  they hold the integers read from the configured retry and expiration settings, which
  are 60 and 3600 when the settings are not in the environment.
\<close>

theorem retry_and_expire_only_at_emergency:
  assumes post: "HttpPost u data t \<in>
                   set (new_events w (snd (send_pushover_notification out cfg to text url w)))"
  shows "\<exists>priority.
           py_int (env_get (environ out) ''PUSHOVER_PRIORITY'' (S ''1'')) = Inr priority \<and>
           map_of data ''priority'' = Some (PInt priority) \<and>
           (''retry'' \<in> keys data \<longleftrightarrow> priority = 2) \<and>
           (''expire'' \<in> keys data \<longleftrightarrow> priority = 2) \<and>
           (priority = 2 \<longrightarrow>
              (\<exists>retry expire.
                 py_int (env_get (environ out) ''PUSHOVER_RETRY'' (S ''60'')) = Inr retry \<and>
                 py_int (env_get (environ out) ''PUSHOVER_EXPIRE'' (S ''3600'')) = Inr expire \<and>
                 map_of data ''retry'' = Some (PInt retry) \<and>
                 map_of data ''expire'' = Some (PInt expire)) \<and>
              (environ out ''PUSHOVER_RETRY'' = None \<longrightarrow> map_of data ''retry'' = Some (PInt 60)) \<and>
              (environ out ''PUSHOVER_EXPIRE'' = None \<longrightarrow> map_of data ''expire'' = Some (PInt 3600)))"
proof -
  from send_post_event [OF post]
  have "build_data (environ out) (PUSHOVER_TOKEN cfg) to text url = Inr data" by simp
  from build_data_Inr [OF this] obtain priority extra where
    p: "py_int (env_get (environ out) ''PUSHOVER_PRIORITY'' (S ''1'')) = Inr priority"
    and e: "if priority = 2
            then \<exists>retry expire.
                   py_int (env_get (environ out) ''PUSHOVER_RETRY'' (S ''60'')) = Inr retry \<and>
                   py_int (env_get (environ out) ''PUSHOVER_EXPIRE'' (S ''3600'')) = Inr expire \<and>
                   extra = [(''retry'', PInt retry), (''expire'', PInt expire)]
            else extra = []"
    and d: "data = [(''token'', PStr (PUSHOVER_TOKEN cfg)), (''user'', PStr to),
                    (''title'', PStr notification_title), (''message'', PStr text),
                    (''priority'', PInt priority)] @ extra @
                   (case url of
                      None \<Rightarrow> []
                    | Some u \<Rightarrow> [(''url'', PStr u), (''url_title'', PStr (S ''Open Video''))])"
    by blast
  show ?thesis
  proof (cases "priority = 2")
    case True
    with e obtain retry expire where
      r: "py_int (env_get (environ out) ''PUSHOVER_RETRY'' (S ''60'')) = Inr retry"
      and x: "py_int (env_get (environ out) ''PUSHOVER_EXPIRE'' (S ''3600'')) = Inr expire"
      and extra: "extra = [(''retry'', PInt retry), (''expire'', PInt expire)]"
      by auto
    have r60: "environ out ''PUSHOVER_RETRY'' = None \<Longrightarrow> retry = 60"
      using r by (simp add: env_get_unset py_int_60)
    have x3600: "environ out ''PUSHOVER_EXPIRE'' = None \<Longrightarrow> expire = 3600"
      using x by (simp add: env_get_unset py_int_3600)
    show ?thesis
      using p r x True r60 x3600 unfolding d extra
      by (cases url) (simp_all add: keys_def)
  next
    case False
    with e have "extra = []" by simp
    then show ?thesis
      using p False unfolding d by (cases url) (simp_all add: keys_def)
  qed
qed

lemma build_urgent:
  "build_data urgent_env (S ''t'') (S ''u'') (S ''My New Upload'') None = Inr urgent_data"
  by (simp add: build_data_def urgent_env_def demo_env_def env_get_def urgent_data_def py_int_def
        S_def int_isspace_def py_isspace_def is_digit_def)

lemma urgent_send:
  "send_pushover_notification (demo_out urgent_env es r) demo_cfg (S ''u'') (S ''My New Upload'') None w =
     (case r of NoReply \<Rightarrow> Inl RequestException | Reply code \<Rightarrow> raise_for_status code,
      emit (HttpPost api_url urgent_data 15) w)"
  by (simp add: send_posts build_urgent)

theorem retry_and_expire_only_at_emergency_witness:
  "HttpPost api_url urgent_data 15 \<in>
     set (new_events (demo_world None)
       (snd (send_pushover_notification (demo_out urgent_env None (Reply 200)) demo_cfg (S ''u'')
               (S ''My New Upload'') None (demo_world None)))) \<and>
   ''retry'' \<in> keys urgent_data \<and> ''expire'' \<in> keys urgent_data \<and>
   map_of urgent_data ''expire'' = Some (PInt 3600) \<and>
   HttpPost api_url demo_data 15 \<in>
     set (new_events (demo_world None)
       (snd (send_pushover_notification (demo_out demo_env None (Reply 200)) demo_cfg (S ''u'')
               (S ''My New Upload'') (Some (S ''https://youtu.be/xyz789'')) (demo_world None)))) \<and>
   ''retry'' \<notin> keys demo_data \<and> ''expire'' \<notin> keys demo_data"
proof -
  let ?urgent = "demo_out urgent_env None (Reply 200)"
  let ?plain = "demo_out demo_env None (Reply 200)"
  have h2: "HttpPost api_url urgent_data 15 \<in>
     set (new_events (demo_world None)
       (snd (send_pushover_notification ?urgent demo_cfg (S ''u'') (S ''My New Upload'') None
               (demo_world None))))"
    by (simp add: urgent_send new_events_def)
  have h1: "HttpPost api_url demo_data 15 \<in>
     set (new_events (demo_world None)
       (snd (send_pushover_notification ?plain demo_cfg (S ''u'') (S ''My New Upload'')
               (Some (S ''https://youtu.be/xyz789'')) (demo_world None))))"
    by (simp add: demo_send new_events_def)
  have p2: "py_int (env_get (environ ?urgent) ''PUSHOVER_PRIORITY'' (S ''1'')) = Inr 2"
    by (simp add: urgent_env_def env_get_def py_int_def S_def int_isspace_def py_isspace_def is_digit_def)
  have p1: "py_int (env_get (environ ?plain) ''PUSHOVER_PRIORITY'' (S ''1'')) = Inr 1"
    by (simp add: demo_env_def env_get_def py_int_def S_def int_isspace_def py_isspace_def is_digit_def)
  have x: "environ ?urgent ''PUSHOVER_EXPIRE'' = None"
    by (simp add: urgent_env_def demo_env_def)
  from retry_and_expire_only_at_emergency [OF h2] p2 x
  have a: "''retry'' \<in> keys urgent_data \<and> ''expire'' \<in> keys urgent_data \<and>
           map_of urgent_data ''expire'' = Some (PInt 3600)"
    by auto
  from retry_and_expire_only_at_emergency [OF h1] p1
  have b: "''retry'' \<notin> keys demo_data \<and> ''expire'' \<notin> keys demo_data"
    by auto
  from h1 h2 a b show ?thesis by blast
qed

section \<open>The link of the notification\<close>

text \<open>
  Claim C9. In every request that \<open>send_pushover_notification\<close> posts, the keys
  \<open>url\<close> and \<open>url_title\<close> are present if and only if a link was passed; when
  one was, \<open>url\<close> holds it and \<open>url_title\<close> holds the fixed label
  \<open>Open Video\<close>.
\<close>

theorem link_is_attached_with_fixed_label:
  assumes post: "HttpPost u data t \<in>
                   set (new_events w (snd (send_pushover_notification out cfg to text url w)))"
  shows "(''url'' \<in> keys data \<longleftrightarrow> url \<noteq> None) \<and>
         (''url_title'' \<in> keys data \<longleftrightarrow> url \<noteq> None) \<and>
         (\<forall>l. url = Some l \<longrightarrow>
                map_of data ''url'' = Some (PStr l) \<and>
                map_of data ''url_title'' = Some (PStr (S ''Open Video'')))"
proof -
  from send_post_event [OF post]
  have "build_data (environ out) (PUSHOVER_TOKEN cfg) to text url = Inr data" by simp
  from build_data_Inr [OF this] obtain priority extra where
    e: "extra = [] \<or> (\<exists>retry expire. extra = [(''retry'', PInt retry), (''expire'', PInt expire)])"
    and d: "data = [(''token'', PStr (PUSHOVER_TOKEN cfg)), (''user'', PStr to),
                    (''title'', PStr notification_title), (''message'', PStr text),
                    (''priority'', PInt priority)] @ extra @
                   (case url of
                      None \<Rightarrow> []
                    | Some u \<Rightarrow> [(''url'', PStr u), (''url_title'', PStr (S ''Open Video''))])"
    by (auto split: if_splits)
  from e show ?thesis
    unfolding d by (cases url) (auto simp: keys_def)
qed

theorem link_is_attached_with_fixed_label_witness:
  "HttpPost api_url demo_data 15 \<in>
     set (new_events (demo_world None)
       (snd (send_pushover_notification (demo_out demo_env None NoReply) demo_cfg (S ''u'')
               (S ''My New Upload'') (Some (S ''https://youtu.be/xyz789'')) (demo_world None)))) \<and>
   ''url'' \<in> keys demo_data \<and>
   map_of demo_data ''url'' = Some (PStr (S ''https://youtu.be/xyz789'')) \<and>
   map_of demo_data ''url_title'' = Some (PStr (S ''Open Video'')) \<and>
   HttpPost api_url urgent_data 15 \<in>
     set (new_events (demo_world None)
       (snd (send_pushover_notification (demo_out urgent_env None NoReply) demo_cfg (S ''u'')
               (S ''My New Upload'') None (demo_world None)))) \<and>
   ''url'' \<notin> keys urgent_data \<and> ''url_title'' \<notin> keys urgent_data"
proof -
  have h1: "HttpPost api_url demo_data 15 \<in>
     set (new_events (demo_world None)
       (snd (send_pushover_notification (demo_out demo_env None NoReply) demo_cfg (S ''u'')
               (S ''My New Upload'') (Some (S ''https://youtu.be/xyz789'')) (demo_world None))))"
    by (simp add: demo_send new_events_def)
  have h2: "HttpPost api_url urgent_data 15 \<in>
     set (new_events (demo_world None)
       (snd (send_pushover_notification (demo_out urgent_env None NoReply) demo_cfg (S ''u'')
               (S ''My New Upload'') None (demo_world None))))"
    by (simp add: urgent_send new_events_def)
  from link_is_attached_with_fixed_label [OF h1] link_is_attached_with_fixed_label [OF h2] h1 h2
  show ?thesis by simp
qed

section \<open>Which exceptions can leave a run\<close>

lemma py_int_cases: "py_int s = Inl ValueError \<or> (\<exists>n. py_int s = Inr n)"
proof -
  define t where "t = rev (dropWhile int_isspace (rev (dropWhile int_isspace s)))"
  define neg where "neg = (case t of c # _ \<Rightarrow> c = 45 | [] \<Rightarrow> False)"
  define ds where "ds = (case t of c # r \<Rightarrow> if c = 45 \<or> c = 43 then r else t | [] \<Rightarrow> t)"
  have eq: "py_int s =
      (case ds of
         [] \<Rightarrow> Inl ValueError
       | d # _ \<Rightarrow>
           if is_digit d
           then (case int_digits 0 ds of
                   None \<Rightarrow> Inl ValueError
                 | Some n \<Rightarrow> Inr (if neg then - int n else int n))
           else Inl ValueError)"
    unfolding py_int_def Let_def t_def neg_def ds_def by (rule refl)
  show ?thesis
    unfolding eq by (cases ds; cases "int_digits 0 ds") auto
qed

lemma py_int_raises: "py_int s = Inl e \<Longrightarrow> e = ValueError"
  using py_int_cases [of s] by auto

lemma build_data_raises: "build_data env token to text url = Inl e \<Longrightarrow> e = ValueError"
  unfolding build_data_def Let_def
  by (auto split: sum.splits if_splits dest: py_int_raises)

lemma send_raises:
  "fst (send_pushover_notification out cfg to text url w) \<noteq> Inl AttributeError"
  by (auto simp: send_pushover_notification_def Let_def raise_for_status_def
           split: sum.splits http_reply.splits dest: build_data_raises)

lemma check_and_notify_raises:
  "fst (check_and_notify out cfg video_id ttl lnk w) \<noteq> Inl AttributeError"
proof (cases "Some video_id = map_option py_strip (files w (LAST_SEEN_FILE cfg))")
  case True
  then obtain marker where "files w (LAST_SEEN_FILE cfg) = Some marker" "py_strip marker = video_id"
    by (cases "files w (LAST_SEEN_FILE cfg)") auto
  then show ?thesis by (simp add: check_same)
next
  case False
  show ?thesis
    using send_raises [of out cfg "PUSHOVER_USER cfg" ttl "Some lnk"
        "before_send cfg (map_option py_strip (files w (LAST_SEEN_FILE cfg))) w"]
    by (auto simp: check_new [OF False] split: prod.splits sum.splits)
qed

text \<open>
  Claim C7 says that no exception escapes the run on any feed content, entries that lack
  the video ID, the title or the link included. The guard of line 63 covers the feed
  without entries only: lines 69 to 71 read the three attributes of the first entry
  unguarded. Here the feed's only entry has no video ID and the run ends in
  AttributeError.
\<close>

theorem entry_without_video_id_raises:
  "fst (main (demo_out demo_env (Some [demo_entry\<lparr>yt_videoid := None\<rparr>]) (Reply 200)) (demo_world None))
     = Inl AttributeError"
  by (simp add: main_latest load_demo missing_demo)

text \<open>
  Claim C7, amended. For every feed response that yields no entries (the attribute is
  missing or the list is empty) the run returns normally and its last action is a printed
  diagnostic. AttributeError leaves the run exactly when the required settings are present
  and the first entry of the feed lacks the video ID, the title or the link.
\<close>

theorem attribute_error_only_from_incomplete_entry:
  assumes cfg: "cfg = load_config (environ out)"
      and fd: "fd = parse out (FEED_URL cfg)"
  shows "((entries fd = None \<or> entries fd = Some []) \<longrightarrow>
            fst (main out w) = Inr () \<and>
            new_events w (snd (main out w)) \<noteq> [] \<and>
            (\<exists>msg. last (new_events w (snd (main out w))) = Print msg)) \<and>
         (fst (main out w) = Inl AttributeError \<longleftrightarrow>
            missing cfg = [] \<and>
            (\<exists>latest rest. entries fd = Some (latest # rest) \<and>
               (yt_videoid latest = None \<or> title latest = None \<or> link latest = None)))"
proof (cases "missing cfg = []")
  case False
  then show ?thesis
    unfolding cfg by (simp add: main_missing new_events_def)
next
  case complete: True
  show ?thesis
  proof (cases "entries fd = None \<or> entries fd = Some []")
    case True
    with complete show ?thesis
      unfolding cfg fd by (auto simp: main_no_entries new_events_def)
  next
    case False
    then obtain latest rest where e: "entries fd = Some (latest # rest)"
      by (cases "entries fd"; cases "the (entries fd)") auto
    have m: "main out w =
           (case (yt_videoid latest, title latest, link latest) of
              (Some video_id, Some ttl, Some lnk) \<Rightarrow>
                 check_and_notify out cfg video_id ttl lnk (emit (FeedFetch (FEED_URL cfg)) w)
            | _ \<Rightarrow> (Inl AttributeError, emit (FeedFetch (FEED_URL cfg)) w))"
      using complete e unfolding cfg fd by (rule main_latest)
    show ?thesis
      using complete e check_and_notify_raises
      unfolding m by (auto split: option.splits)
  qed
qed

theorem attribute_error_only_from_incomplete_entry_witness:
  "entries (parse (demo_out demo_env None (Reply 200)) (FEED_URL demo_cfg)) = None \<and>
   fst (main (demo_out demo_env None (Reply 200)) (demo_world None)) = Inr () \<and>
   (\<exists>msg. last (new_events (demo_world None)
                 (snd (main (demo_out demo_env None (Reply 200)) (demo_world None)))) = Print msg) \<and>
   title (demo_entry\<lparr>title := None\<rparr>) = None \<and>
   fst (main (demo_out demo_env (Some [demo_entry\<lparr>title := None\<rparr>]) (Reply 200)) (demo_world None))
     = Inl AttributeError \<and>
   fst (main (demo_out demo_env (Some [demo_entry]) (Reply 200)) (demo_world None)) \<noteq> Inl AttributeError"
  using attribute_error_only_from_incomplete_entry
          [of demo_cfg "demo_out demo_env None (Reply 200)" "\<lparr> entries = None \<rparr>" "demo_world None"]
        attribute_error_only_from_incomplete_entry
          [of demo_cfg "demo_out demo_env (Some [demo_entry\<lparr>title := None\<rparr>]) (Reply 200)"
              "\<lparr> entries = Some [demo_entry\<lparr>title := None\<rparr>] \<rparr>" "demo_world None"]
        attribute_error_only_from_incomplete_entry
          [of demo_cfg "demo_out demo_env (Some [demo_entry]) (Reply 200)"
              "\<lparr> entries = Some [demo_entry] \<rparr>" "demo_world None"]
        missing_demo
  by (simp add: load_demo)

section \<open>The first run\<close>

text \<open>
  Claim C8. When the marker file does not exist, reading it raises nothing: the last-seen
  value is \<open>None\<close>, which differs from every video ID. The run prints that it
  treats this as the first run, and goes on to call \<open>send_pushover_notification\<close> for
  the latest entry; what the run returns is what that call gives, followed by the marker
  write on success. When the request can be built, it is posted, once.
\<close>

theorem absent_marker_is_first_run:
  assumes cfg: "cfg = load_config (environ out)"
      and complete: "missing cfg = []"
      and feed: "entries (parse out (FEED_URL cfg)) = Some (latest # rest)"
      and attrs: "yt_videoid latest = Some video_id" "title latest = Some ttl" "link latest = Some lnk"
      and absent: "files w (LAST_SEEN_FILE cfg) = None"
  shows "fst (read_last_seen cfg w) = None \<and>
         (\<forall>v. Some v \<noteq> fst (read_last_seen cfg w)) \<and>
         main out w =
           (case send_pushover_notification out cfg (PUSHOVER_USER cfg) ttl (Some lnk)
                   (w\<lparr>trace := trace w @
                      [FeedFetch (FEED_URL cfg), FileRead (LAST_SEEN_FILE cfg),
                       Print (S ''LAST_SEEN_FILE not found; treating as first run.''),
                       Print (S ''Last seen video ID: '' @ S ''None''),
                       Print (S ''New video detected. Sending notification and updating LAST_SEEN_FILE.'')]\<rparr>) of
              (Inl e, w') \<Rightarrow> (Inl e, w')
            | (Inr _, w') \<Rightarrow>
                (Inr (), emit (Print (S ''LAST_SEEN_FILE updated.'')) (write_last_seen cfg video_id w'))) \<and>
         (\<forall>data. build_data (environ out) (PUSHOVER_TOKEN cfg) (PUSHOVER_USER cfg) ttl (Some lnk) = Inr data \<longrightarrow>
            filter is_post (new_events w (snd (main out w))) = [HttpPost api_url data 15])"
proof -
  let ?w1 = "emit (FeedFetch (FEED_URL cfg)) w"
  let ?w3 = "w\<lparr>trace := trace w @
                      [FeedFetch (FEED_URL cfg), FileRead (LAST_SEEN_FILE cfg),
                       Print (S ''LAST_SEEN_FILE not found; treating as first run.''),
                       Print (S ''Last seen video ID: '' @ S ''None''),
                       Print (S ''New video detected. Sending notification and updating LAST_SEEN_FILE.'')]\<rparr>"
  have r: "fst (read_last_seen cfg w) = None"
    using absent by (simp add: read_last_seen_def Let_def)
  have m: "main out w = check_and_notify out cfg video_id ttl lnk ?w1"
    using complete feed attrs unfolding cfg by (simp add: main_latest)
  have new: "Some video_id \<noteq> map_option py_strip (files ?w1 (LAST_SEEN_FILE cfg))"
    using absent by simp
  have b: "before_send cfg (map_option py_strip (files ?w1 (LAST_SEEN_FILE cfg))) ?w1 = ?w3"
    using absent by (simp add: before_send_def show_last_seen_def emit_def)
  have c: "main out w =
           (case send_pushover_notification out cfg (PUSHOVER_USER cfg) ttl (Some lnk) ?w3 of
              (Inl e, w') \<Rightarrow> (Inl e, w')
            | (Inr _, w') \<Rightarrow>
                (Inr (), emit (Print (S ''LAST_SEEN_FILE updated.'')) (write_last_seen cfg video_id w')))"
    unfolding m check_new [OF new] b ..
  have p: "filter is_post (new_events w (snd (main out w))) = [HttpPost api_url data 15]"
    if "build_data (environ out) (PUSHOVER_TOKEN cfg) (PUSHOVER_USER cfg) ttl (Some lnk) = Inr data"
    for data
    unfolding c send_posts [OF that]
    by (cases "http out api_url data")
       (auto simp: raise_for_status_def write_last_seen_def new_events_def)
  from r c p show ?thesis by simp
qed

theorem absent_marker_is_first_run_witness:
  "files (demo_world None) (LAST_SEEN_FILE demo_cfg) = None \<and>
   fst (read_last_seen demo_cfg (demo_world None)) = None \<and>
   filter is_post (new_events (demo_world None)
      (snd (main (demo_out demo_env (Some [demo_entry]) (Reply 200)) (demo_world None))))
     = [HttpPost api_url demo_data 15]"
proof -
  let ?out = "demo_out demo_env (Some [demo_entry]) (Reply 200)"
  have c: "demo_cfg = load_config (environ ?out)" by (simp add: load_demo)
  have f: "entries (parse ?out (FEED_URL demo_cfg)) = Some (demo_entry # [])" by simp
  have a: "files (demo_world None) (LAST_SEEN_FILE demo_cfg) = None" by simp
  have d: "build_data (environ ?out) (PUSHOVER_TOKEN demo_cfg) (PUSHOVER_USER demo_cfg)
             (S ''My New Upload'') (Some (S ''https://youtu.be/xyz789'')) = Inr demo_data"
    using build_demo by simp
  note first_run = absent_marker_is_first_run
    [OF c missing_demo f demo_entry_sel(1) demo_entry_sel(2) demo_entry_sel(3) a]
  from first_run have "fst (read_last_seen demo_cfg (demo_world None)) = None" by blast
  moreover from first_run d
  have "filter is_post (new_events (demo_world None) (snd (main ?out (demo_world None))))
          = [HttpPost api_url demo_data 15]"
    by blast
  ultimately show ?thesis using a by blast
qed

section \<open>White space around the marker\<close>

text \<open>
  Claim C10. The text of the marker file is stripped before the comparison. When the file
  holds the latest entry's video ID with any white space before and after it, the ID
  itself having none at its ends, the stripped text is the ID: the run makes no POST and
  leaves the files as they are. The write path stores the ID alone.
\<close>

theorem marker_is_stripped_before_comparison:
  assumes cfg: "cfg = load_config (environ out)"
      and complete: "missing cfg = []"
      and feed: "entries (parse out (FEED_URL cfg)) = Some (latest # rest)"
      and attrs: "yt_videoid latest = Some video_id" "title latest = Some ttl" "link latest = Some lnk"
      and marker: "files w (LAST_SEEN_FILE cfg) = Some (l @ video_id @ r)"
      and space: "blank l" "blank r"
      and bare: "bare video_id"
  shows "py_strip (l @ video_id @ r) = video_id \<and>
         fst (main out w) = Inr () \<and>
         files (snd (main out w)) = files w \<and>
         filter is_post (new_events w (snd (main out w))) = [] \<and>
         files (write_last_seen cfg video_id w') (LAST_SEEN_FILE cfg) = Some video_id"
proof -
  let ?w1 = "emit (FeedFetch (FEED_URL cfg)) w"
  have s: "py_strip (l @ video_id @ r) = video_id"
    using space bare by (rule py_strip_surrounded)
  have m: "main out w = check_and_notify out cfg video_id ttl lnk ?w1"
    using complete feed attrs unfolding cfg by (simp add: main_latest)
  have "files ?w1 (LAST_SEEN_FILE cfg) = Some (l @ video_id @ r)" using marker by simp
  from check_same [OF this s, of out ttl lnk] s
  show ?thesis unfolding m by (simp add: new_events_def write_last_seen_def)
qed

theorem marker_is_stripped_before_comparison_witness:
  "blank (S ''  '') \<and> blank [10] \<and> bare (S ''xyz789'') \<and>
   fst (main (demo_out demo_env (Some [demo_entry]) (Reply 200))
          (demo_world (Some (S ''  '' @ S ''xyz789'' @ [10])))) = Inr () \<and>
   files (snd (main (demo_out demo_env (Some [demo_entry]) (Reply 200))
          (demo_world (Some (S ''  '' @ S ''xyz789'' @ [10])))))
     = files (demo_world (Some (S ''  '' @ S ''xyz789'' @ [10]))) \<and>
   filter is_post (new_events (demo_world (Some (S ''  '' @ S ''xyz789'' @ [10])))
      (snd (main (demo_out demo_env (Some [demo_entry]) (Reply 200))
          (demo_world (Some (S ''  '' @ S ''xyz789'' @ [10])))))) = []"
proof -
  have l: "blank (S ''  '')" by (simp add: blank_def S_def py_isspace_def)
  have r: "blank [10]" by (simp add: blank_def py_isspace_def)
  have v: "bare (S ''xyz789'')" by (simp add: bare_def S_def py_isspace_def)
  from marker_is_stripped_before_comparison [of demo_cfg
      "demo_out demo_env (Some [demo_entry]) (Reply 200)" demo_entry "[]" "S ''xyz789''"
      "S ''My New Upload''" "S ''https://youtu.be/xyz789''"
      "demo_world (Some (S ''  '' @ S ''xyz789'' @ [10]))" "S ''  ''" "[10]"]
    l r v missing_demo
  show ?thesis by (simp add: load_demo)
qed

end
